theory Spec2Isabelle
  imports Complex_Main "HOL-Library.Product_Lexorder"
begin

section \<open>The data model of \<^verbatim>\<open>app.py\<close>\<close>

text \<open>
  A \<^verbatim>\<open>datetime\<close> is the tuple (year, month, day, hour, minute, second, microsecond),
  ordered lexicographically, as Python and the database order points in time.
  \<^verbatim>\<open>strftime('%Y-%m-%d')\<close> prints the first three components; the model keeps them as
  a triple (a \<open>date\<close>) instead of printing them.
\<close>

type_synonym datetime = "nat \<times> nat \<times> nat \<times> nat \<times> nat \<times> nat \<times> nat"

type_synonym date = "nat \<times> nat \<times> nat"

definition strftime_Ymd :: "datetime \<Rightarrow> date" where
  "strftime_Ymd t = (case t of (y, mo, d, rest) \<Rightarrow> (y, mo, d))"

text \<open>
  The tables: one record per model class, one field per column. A text is the list of
  its characters: \<^verbatim>\<open>len\<close> is the length of the list and a slice is a \<open>take\<close>.
\<close>

record user =
  user_id :: nat
  username :: string
  email :: string
  password_hash :: string
  role :: string
  full_name :: string
  profile_picture :: "string option"
  contact_details :: "string option"
  user_created_at :: datetime

record group =
  g_id :: nat
  g_name :: string
  g_description :: "string option"
  g_teacher_id :: nat
  g_join_password :: string
  g_project_question :: "string option"
  g_created_at :: datetime

record group_member =
  gm_id :: nat
  gm_group_id :: nat
  gm_student_id :: nat
  gm_joined_at :: datetime

record log_entry =
  le_id :: nat
  le_group_id :: nat
  le_student_id :: nat
  le_title :: string
  le_content :: string
  le_media_url :: "string option"
  le_created_at :: datetime

record assignment =
  a_id :: nat
  a_group_id :: nat
  a_teacher_id :: nat
  a_title :: string
  a_description :: string
  a_question_file :: "string option"
  a_due_date :: datetime
  a_created_at :: datetime

text \<open>
  A Python \<^verbatim>\<open>float\<close>: a finite value, an infinity or NaN. Finite values are kept as
  rationals (every double is one); the two zeros are not told apart.
\<close>

datatype pyfloat = Finite rat | PosInf | NegInf | NaN

text \<open>
  The column \<^verbatim>\<open>grade\<close> is a \<^verbatim>\<open>Numeric(5, 2)\<close>: a decimal with two places, kept as a
  rational.
\<close>

record submission =
  s_id :: nat
  s_assignment_id :: nat
  s_student_id :: nat
  s_file_path :: string
  s_submitted_at :: datetime
  s_grade :: "rat option"
  s_feedback :: "string option"

text \<open>
  The state a request handler reads and writes: the tables, each in primary-key order
  (the order in which a query without \<^verbatim>\<open>order_by\<close> is taken to return its rows), and
  the files under the upload folder (path to content) with the directories made there.
\<close>

record state =
  users :: "user list"
  groups :: "group list"
  group_members :: "group_member list"
  log_entries :: "log_entry list"
  assignments :: "assignment list"
  submissions :: "submission list"
  files :: "string \<rightharpoonup> string"
  dirs :: "string set"

text \<open>The key an auto-increment column gives the next row.\<close>

definition next_id :: "nat list \<Rightarrow> nat" where
  "next_id ids = Suc (fold max ids 0)"

section \<open>Requests and responses\<close>

datatype http_method = GET | POST

text \<open>An uploaded file (\<^verbatim>\<open>FileStorage\<close>): its client-side name and its content.\<close>

record upload =
  filename :: string
  payload :: string

text \<open>Python's exceptions; Flask answers one that escapes a handler with status 500.\<close>

datatype pyexc = AttributeError | TypeError | ValueError | OverflowError | DataError

datatype endpoint = Dashboard | Login | View_group nat

text \<open>The dictionaries \<^verbatim>\<open>get_timeline_data\<close> builds.\<close>

record event =
  ev_id :: string
  ev_content :: string
  ev_start :: date
  ev_type :: string
  ev_className :: string
  ev_title :: string
  ev_description :: string

datatype body = Error_body string | Message_body string | Events_body "event list"

text \<open>The templates, with the values the handler hands to each.\<close>

datatype page =
    Register_page
  | Admin_dashboard
  | Teacher_dashboard "group list"
  | Student_dashboard "group list" "assignment list" "nat list" datetime
  | Join_page
  | Group_page group "log_entry list" "assignment list" "group_member list" datetime
  | Create_log_page "group list"
  | Submit_page assignment "submission option" datetime

text \<open>
  A response: a rendered template or a redirect, each with the messages flashed on the
  way (text and category); a JSON body with its status code; \<^verbatim>\<open>abort\<close> with a status
  code (\<^verbatim>\<open>get_or_404\<close>); or an exception that escapes the handler.
\<close>

datatype response =
    Render page "(string \<times> string) list"
  | Redirect endpoint "(string \<times> string) list"
  | Json nat body
  | Abort nat
  | Unhandled pyexc

section \<open>Helpers\<close>

text \<open>\<^verbatim>\<open>str(n)\<close> for a non-negative integer.\<close>

fun str_nat :: "nat \<Rightarrow> string" where
  "str_nat n =
     (if n < 10 then [char_of (48 + n)]
      else str_nat (n div 10) @ [char_of (48 + n mod 10)])"

declare str_nat.simps [simp del]

text \<open>A number printed with at least \<open>w\<close> digits (\<^verbatim>\<open>%m\<close>, \<^verbatim>\<open>%d\<close>, ...).\<close>

definition zero_pad :: "nat \<Rightarrow> nat \<Rightarrow> string" where
  "zero_pad w n = replicate (w - length (str_nat n)) (CHR ''0'') @ str_nat n"

text \<open>
  \<^verbatim>\<open>strftime("%Y%m%d_%H%M%S")\<close>. The C library the interpreter runs on prints the year
  as it is, without padding.
\<close>

definition strftime_stamp :: "datetime \<Rightarrow> string" where
  "strftime_stamp t =
     (case t of (y, mo, d, h, mi, s, us) \<Rightarrow>
        str_nat y @ zero_pad 2 mo @ zero_pad 2 d @ ''_'' @
        zero_pad 2 h @ zero_pad 2 mi @ zero_pad 2 s)"

text \<open>
  \<^verbatim>\<open>str.lower()\<close> on the ASCII letters. A character outside ASCII never lowers to one
  of the letters the permitted extensions are made of.
\<close>

definition lower_char :: "char \<Rightarrow> char" where
  "lower_char c =
     (let n = (of_char c :: nat) in if 65 \<le> n \<and> n \<le> 90 then char_of (n + 32) else c)"

definition lower :: "string \<Rightarrow> string" where
  "lower s = map lower_char s"

text \<open>\<^verbatim>\<open>s.rsplit('.', 1)[1]\<close>, for an \<open>s\<close> that holds a dot: what follows the last dot.\<close>

definition after_last_dot :: "string \<Rightarrow> string" where
  "after_last_dot s = rev (takeWhile (\<lambda>c. c \<noteq> CHR ''.'') (rev s))"

text \<open>\<^verbatim>\<open>os.path.join(a, b)\<close>.\<close>

definition path_join :: "string \<Rightarrow> string \<Rightarrow> string" where
  "path_join a b =
     (if b \<noteq> [] \<and> hd b = CHR ''/'' then b
      else if a = [] \<or> last a = CHR ''/'' then a @ b
      else a @ ''/'' @ b)"

text \<open>
  What the handlers take from outside the repository: the clock, the directory
  \<^verbatim>\<open>config.py\<close> lies in, Werkzeug's \<^verbatim>\<open>secure_filename\<close> and
  \<^verbatim>\<open>generate_password_hash\<close>, Python's \<^verbatim>\<open>float\<close> on a string
  (\<open>None\<close> where it raises \<^verbatim>\<open>ValueError\<close>), and what the database makes of a
  float written to a \<^verbatim>\<open>Numeric(5, 2)\<close> column: the decimal it rounds the float to,
  \<open>None\<close> where it refuses the value, as it does NaN.
\<close>

record env =
  now :: datetime
  basedir :: string
  secure_filename :: "string \<Rightarrow> string"
  generate_password_hash :: "string \<Rightarrow> string"
  float_of_str :: "string \<Rightarrow> pyfloat option"
  numeric_5_2 :: "pyfloat \<Rightarrow> rat option"

text \<open>\<^verbatim>\<open>Config.UPLOAD_FOLDER\<close>.\<close>

definition UPLOAD_FOLDER :: "env \<Rightarrow> string" where
  "UPLOAD_FOLDER e = path_join (basedir e) ''static/uploads''"

text \<open>
  A loop that builds a list and stops at the first element whose step raises.
\<close>

fun for_each :: "('a \<Rightarrow> pyexc + 'b) \<Rightarrow> 'a list \<Rightarrow> pyexc + 'b list" where
  "for_each f [] = Inr []"
| "for_each f (x # xs) =
     (case f x of
        Inl e \<Rightarrow> Inl e
      | Inr y \<Rightarrow> (case for_each f xs of Inl e \<Rightarrow> Inl e | Inr ys \<Rightarrow> Inr (y # ys)))"

section \<open>The timeline\<close>

text \<open>
  The event of a log entry. \<^verbatim>\<open>log.student\<close> is the user row the entry's
  \<^verbatim>\<open>student_id\<close> points to; reading \<^verbatim>\<open>full_name\<close> of a missing one raises.
\<close>

definition log_event :: "state \<Rightarrow> log_entry \<Rightarrow> pyexc + event" where
  "log_event st entry =
     (case find (\<lambda>u. user_id u = le_student_id entry) (users st) of
        None \<Rightarrow> Inl AttributeError
      | Some student \<Rightarrow>
          Inr \<lparr> ev_id = ''log_'' @ str_nat (le_id entry),
                ev_content = le_title entry,
                ev_start = strftime_Ymd (le_created_at entry),
                ev_type = ''point'',
                ev_className = ''log-entry'',
                ev_title = ''By: '' @ full_name student,
                ev_description =
                  (if length (le_content entry) > 100
                   then take 100 (le_content entry) @ ''...''
                   else le_content entry) \<rparr>)"

definition assignment_event :: "assignment \<Rightarrow> event" where
  "assignment_event a =
     \<lparr> ev_id = ''assignment_'' @ str_nat (a_id a),
       ev_content = a_title a,
       ev_start = strftime_Ymd (a_due_date a),
       ev_type = ''point'',
       ev_className = ''assignment'',
       ev_title = ''Assignment Due'',
       ev_description =
         (if length (a_description a) > 100
          then take 100 (a_description a) @ ''...''
          else a_description a) \<rparr>"

text \<open>
  The two queries of the handler. \<^verbatim>\<open>order_by(...asc())\<close> is a stable sort of the
  matching rows; rows with equal keys stay in table order.
\<close>

definition timeline_logs :: "state \<Rightarrow> nat \<Rightarrow> log_entry list" where
  "timeline_logs st group_id =
     sort_key le_created_at (filter (\<lambda>l. le_group_id l = group_id) (log_entries st))"

definition timeline_assignments :: "state \<Rightarrow> nat \<Rightarrow> assignment list" where
  "timeline_assignments st group_id =
     sort_key a_due_date (filter (\<lambda>a. a_group_id a = group_id) (assignments st))"

text \<open>
  The query \<^verbatim>\<open>GroupMember.query.filter_by(group_id=..., student_id=...).first()\<close>, which
  the handlers run wherever they check that a student belongs to a group.
\<close>

definition membership :: "state \<Rightarrow> nat \<Rightarrow> nat \<Rightarrow> group_member option" where
  "membership st group_id student_id =
     find (\<lambda>m. gm_group_id m = group_id \<and> gm_student_id m = student_id) (group_members st)"

definition get_timeline_data :: "state \<Rightarrow> user \<Rightarrow> nat \<Rightarrow> response \<times> state" where
  "get_timeline_data st current_user group_id =
     (if role current_user = ''student''
         \<and> membership st group_id (user_id current_user) = None
      then (Json 403 (Error_body ''Access denied''), st)
      else if role current_user \<noteq> ''student'' \<and> role current_user = ''teacher''
         \<and> (case find (\<lambda>g. g_id g = group_id) (groups st) of
               None \<Rightarrow> True
             | Some g \<Rightarrow> g_teacher_id g \<noteq> user_id current_user)
      then (Json 403 (Error_body ''Access denied''), st)
      else
        (case for_each (log_event st) (timeline_logs st group_id) of
           Inl e \<Rightarrow> (Unhandled e, st)
         | Inr evs \<Rightarrow>
             (Json 200 (Events_body
                (evs @ map assignment_event (timeline_assignments st group_id))), st)))"

section \<open>Uploads\<close>

definition ALLOWED_EXTENSIONS :: "string set" where
  "ALLOWED_EXTENSIONS =
     {''png'', ''jpg'', ''jpeg'', ''gif'', ''pdf'', ''doc'', ''docx'', ''pptx''}"

definition allowed_file :: "string \<Rightarrow> bool" where
  "allowed_file fname =
     (CHR ''.'' \<in> set fname \<and> lower (after_last_dot fname) \<in> ALLOWED_EXTENSIONS)"

text \<open>
  \<^verbatim>\<open>save_file(file, subfolder)\<close>. A \<^verbatim>\<open>FileStorage\<close> is truthy when its filename is not
  empty, so \<^verbatim>\<open>file and file.filename != ''\<close> is one test. Writing under the upload
  folder is taken to succeed.
\<close>

definition save_file :: "env \<Rightarrow> state \<Rightarrow> upload \<Rightarrow> string \<Rightarrow> string option \<times> state" where
  "save_file e st file subfolder =
     (if filename file \<noteq> [] \<and> allowed_file (filename file) then
        (let fname = secure_filename e (filename file);
             timestamp = strftime_stamp (now e);
             unique_filename = timestamp @ ''_'' @ fname;
             upload_dir = path_join (UPLOAD_FOLDER e) subfolder;
             file_path = path_join upload_dir unique_filename
         in (Some (''uploads/'' @ subfolder @ ''/'' @ unique_filename),
             st \<lparr> dirs := insert upload_dir (dirs st),
                  files := (files st)(file_path \<mapsto> payload file) \<rparr>))
      else (None, st))"

section \<open>Registration\<close>

text \<open>
  The form of \<^verbatim>\<open>/register\<close>. The text fields are taken as present; \<open>rf_role\<close> is
  \<open>None\<close> when the form has no \<^verbatim>\<open>role\<close> field, \<open>rf_profile_picture\<close> when it has
  no such file.
\<close>

record register_form =
  rf_username :: string
  rf_email :: string
  rf_full_name :: string
  rf_password :: string
  rf_confirm_password :: string
  rf_role :: "string option"
  rf_profile_picture :: "upload option"

text \<open>\<^verbatim>\<open>s.endswith(suffixes)\<close> for a tuple of suffixes.\<close>

definition endswith :: "string \<Rightarrow> string list \<Rightarrow> bool" where
  "endswith s suffixes =
     list_ex (\<lambda>x. length x \<le> length s \<and> drop (length s - length x) s = x) suffixes"

text \<open>
  The profile picture of a registration: the stored path, the messages flashed and the
  state. \<open>saved\<close> tells whether the write succeeds; when it does not, the handler catches
  the exception.
\<close>

definition register_picture ::
  "env \<Rightarrow> bool \<Rightarrow> state \<Rightarrow> upload option \<Rightarrow> string option \<times> (string \<times> string) list \<times> state" where
  "register_picture e saved st picture =
     (case picture of
        None \<Rightarrow> (None, [], st)
      | Some file \<Rightarrow>
          if filename file \<noteq> [] then
            (if endswith (lower (filename file)) [''.png'', ''.jpg'', ''.jpeg'', ''.gif'']
             then
               (if saved then
                  (let fname = secure_filename e (filename file);
                       timestamp = strftime_stamp (now e);
                       unique_filename = timestamp @ ''_'' @ fname;
                       profiles_dir = path_join (path_join ''static'' ''uploads'') ''profiles'';
                       file_path = path_join profiles_dir unique_filename
                   in (Some (''uploads/profiles/'' @ unique_filename), [],
                       st \<lparr> dirs := insert profiles_dir (dirs st),
                            files := (files st)(file_path \<mapsto> payload file) \<rparr>))
                else (None, [(''Error uploading profile picture'', ''danger'')], st))
             else (None, [(''Please upload an image file (PNG, JPG, GIF)'', ''warning'')], st))
          else (None, [], st))"

text \<open>The values of the column \<^verbatim>\<open>role\<close>, an \<^verbatim>\<open>Enum\<close>.\<close>

definition role_values :: "string set" where
  "role_values = {''admin'', ''teacher'', ''student''}"

text \<open>
  \<^verbatim>\<open>register\<close>. \<open>current_user\<close> is \<open>None\<close> for a visitor who is not logged in. The
  handler hands the role to the row as it came; a value the column's enumeration does
  not hold is refused by the database at the commit (strict SQL mode), an error the
  handler does not catch.
\<close>

definition register ::
  "env \<Rightarrow> bool \<Rightarrow> state \<Rightarrow> user option \<Rightarrow> http_method \<Rightarrow> register_form \<Rightarrow> response \<times> state" where
  "register e saved st current_user meth form =
     (if current_user \<noteq> None then (Redirect Dashboard [], st)
      else if meth = POST then
        (let role_field = (case rf_role form of None \<Rightarrow> ''student'' | Some r \<Rightarrow> r) in
         if rf_password form \<noteq> rf_confirm_password form
         then (Render Register_page [(''Passwords do not match'', ''danger'')], st)
         else if find (\<lambda>u. username u = rf_username form) (users st) \<noteq> None
         then (Render Register_page [(''Username already exists'', ''danger'')], st)
         else if find (\<lambda>u. email u = rf_email form) (users st) \<noteq> None
         then (Render Register_page [(''Email already exists'', ''danger'')], st)
         else
           (case register_picture e saved st (rf_profile_picture form) of
              (picture, flashed, st1) \<Rightarrow>
                (let new_user =
                       \<lparr> user_id = next_id (map user_id (users st1)),
                         username = rf_username form,
                         email = rf_email form,
                         password_hash = generate_password_hash e (rf_password form),
                         role = role_field,
                         full_name = rf_full_name form,
                         profile_picture = picture,
                         contact_details = None,
                         user_created_at = now e \<rparr>
                 in if role_field \<notin> role_values then (Unhandled DataError, st1)
                    else (Redirect Login
                            (flashed @ [(''Registration successful. Please login.'', ''success'')]),
                          st1 \<lparr> users := users st1 @ [new_user] \<rparr>))))
      else (Render Register_page [], st))"

section \<open>The dashboard\<close>

text \<open>
  \<^verbatim>\<open>dashboard\<close>. The two calls of \<^verbatim>\<open>datetime.now()\<close> are taken to read the same time.
\<close>

definition dashboard :: "env \<Rightarrow> state \<Rightarrow> user \<Rightarrow> response \<times> state" where
  "dashboard e st current_user =
     (if role current_user = ''admin'' then (Render Admin_dashboard [], st)
      else if role current_user = ''teacher'' then
        (Render (Teacher_dashboard
           (filter (\<lambda>g. g_teacher_id g = user_id current_user) (groups st))) [], st)
      else
        (let group_memberships =
               filter (\<lambda>m. gm_student_id m = user_id current_user) (group_members st);
             group_ids = map gm_group_id group_memberships;
             groups_found =
               (if group_ids \<noteq> [] then filter (\<lambda>g. g_id g \<in> set group_ids) (groups st)
                else []);
             assignments_found =
               filter (\<lambda>a. a_group_id a \<in> set group_ids \<and> a_due_date a > now e)
                 (assignments st);
             submitted_assignments =
               filter (\<lambda>s. s_student_id s = user_id current_user
                           \<and> s_assignment_id s \<in> set (map a_id assignments_found))
                 (submissions st);
             submitted_assignment_ids = map s_assignment_id submitted_assignments
         in (Render (Student_dashboard groups_found assignments_found
                       submitted_assignment_ids (now e)) [], st)))"

text \<open>
  Modelled from the spec: the template \<^verbatim>\<open>dashboard/student.html\<close>, which is not among
  the sources. It receives \<^verbatim>\<open>assignments\<close> and \<^verbatim>\<open>submitted_assignment_ids\<close>; the spec
  says its pending-assignments view leaves out the assignments the student has
  submitted.
\<close>

definition pending_assignments_view :: "assignment list \<Rightarrow> nat list \<Rightarrow> assignment list" where
  "pending_assignments_view assignments_given submitted_assignment_ids =
     filter (\<lambda>a. a_id a \<notin> set submitted_assignment_ids) assignments_given"

section \<open>Groups\<close>

text \<open>
  \<^verbatim>\<open>join_group\<close>. \<open>password\<close> is \<open>None\<close> when the form has no such field. The query
  compares the secret for equality and takes the first group that matches.
\<close>

definition join_group ::
  "env \<Rightarrow> state \<Rightarrow> user \<Rightarrow> http_method \<Rightarrow> string option \<Rightarrow> response \<times> state" where
  "join_group e st current_user meth password =
     (if role current_user \<noteq> ''student''
      then (Redirect Dashboard [(''Only students can join groups'', ''danger'')], st)
      else if meth = POST then
        (case password of
           None \<Rightarrow> (Render Join_page [(''Please enter the group password'', ''danger'')], st)
         | Some pw \<Rightarrow>
             if pw = [] then
               (Render Join_page [(''Please enter the group password'', ''danger'')], st)
             else
               (case find (\<lambda>g. g_join_password g = pw) (groups st) of
                  None \<Rightarrow>
                    (Render Join_page
                       [(''Invalid group password. Please check the password and try again.'',
                         ''danger'')], st)
                | Some g \<Rightarrow>
                    (case membership st (g_id g) (user_id current_user) of
                       Some existing_member \<Rightarrow>
                         (Redirect (View_group (g_id g))
                            [(''You are already a member of this group'', ''info'')], st)
                     | None \<Rightarrow>
                         (Redirect (View_group (g_id g))
                            [(''Successfully joined the group: '' @ g_name g, ''success'')],
                          st \<lparr> group_members := group_members st @
                                 [\<lparr> gm_id = next_id (map gm_id (group_members st)),
                                    gm_group_id = g_id g,
                                    gm_student_id = user_id current_user,
                                    gm_joined_at = now e \<rparr>] \<rparr>))))
      else (Render Join_page [], st))"

text \<open>
  \<^verbatim>\<open>view_group\<close>. \<^verbatim>\<open>order_by(created_at.desc())\<close> is the stable sort read backwards.
\<close>

definition view_group :: "env \<Rightarrow> state \<Rightarrow> user \<Rightarrow> nat \<Rightarrow> response \<times> state" where
  "view_group e st current_user group_id =
     (case find (\<lambda>g. g_id g = group_id) (groups st) of
        None \<Rightarrow> (Abort 404, st)
      | Some g \<Rightarrow>
          if role current_user = ''student''
             \<and> membership st group_id (user_id current_user) = None
          then (Redirect Dashboard [(''You are not a member of this group'', ''danger'')], st)
          else if role current_user \<noteq> ''student'' \<and> role current_user = ''teacher''
             \<and> g_teacher_id g \<noteq> user_id current_user
          then (Redirect Dashboard [(''You are not the teacher of this group'', ''danger'')], st)
          else
            (Render (Group_page g
               (rev (sort_key le_created_at
                  (rev (filter (\<lambda>l. le_group_id l = group_id) (log_entries st)))))
               (sort_key a_due_date (filter (\<lambda>a. a_group_id a = group_id) (assignments st)))
               (filter (\<lambda>m. gm_group_id m = group_id) (group_members st))
               (now e)) [], st))"

section \<open>The journal\<close>

text \<open>
  The form of \<^verbatim>\<open>/logs/create\<close>. \<open>lf_group_id\<close> is the group the field
  \<^verbatim>\<open>group_id\<close> names, \<open>None\<close> when it names none; the texts are taken as present.
\<close>

record log_form =
  lf_group_id :: "nat option"
  lf_title :: string
  lf_content :: string
  lf_media :: "upload option"

definition create_log ::
  "env \<Rightarrow> state \<Rightarrow> user \<Rightarrow> http_method \<Rightarrow> log_form \<Rightarrow> response \<times> state" where
  "create_log e st current_user meth form =
     (if role current_user \<noteq> ''student''
      then (Redirect Dashboard [(''Only students can create log entries'', ''danger'')], st)
      else
        (let group_memberships =
               filter (\<lambda>m. gm_student_id m = user_id current_user) (group_members st);
             group_ids = map gm_group_id group_memberships;
             groups_found =
               (if group_ids \<noteq> [] then filter (\<lambda>g. g_id g \<in> set group_ids) (groups st)
                else [])
         in if meth = POST then
              (case (case lf_group_id form of
                       None \<Rightarrow> None
                     | Some gid \<Rightarrow>
                         (case membership st gid (user_id current_user) of
                            None \<Rightarrow> None
                          | Some m \<Rightarrow> Some gid)) of
                 None \<Rightarrow>
                   (Redirect Dashboard [(''You are not a member of this group'', ''danger'')], st)
               | Some gid \<Rightarrow>
                   (case (case lf_media form of
                            None \<Rightarrow> (None, st)
                          | Some file \<Rightarrow> save_file e st file ''media'') of
                      (media_url, st1) \<Rightarrow>
                        (Redirect (View_group gid)
                           [(''Log entry created successfully'', ''success'')],
                         st1 \<lparr> log_entries := log_entries st1 @
                                [\<lparr> le_id = next_id (map le_id (log_entries st1)),
                                   le_group_id = gid,
                                   le_student_id = user_id current_user,
                                   le_title = lf_title form,
                                   le_content = lf_content form,
                                   le_media_url = media_url,
                                   le_created_at = now e \<rparr>] \<rparr>)))
            else (Render (Create_log_page groups_found) [], st)))"

section \<open>Assignments: submitting and grading\<close>

text \<open>
  \<^verbatim>\<open>submit_assignment\<close>. \<open>file\<close> is \<open>None\<close> when the request has no file named
  \<^verbatim>\<open>file\<close>.
\<close>

definition submit_assignment ::
  "env \<Rightarrow> state \<Rightarrow> user \<Rightarrow> http_method \<Rightarrow> nat \<Rightarrow> upload option \<Rightarrow> response \<times> state" where
  "submit_assignment e st current_user meth assignment_id file =
     (if role current_user \<noteq> ''student''
      then (Redirect Dashboard [(''Only students can submit assignments'', ''danger'')], st)
      else
        (case find (\<lambda>a. a_id a = assignment_id) (assignments st) of
           None \<Rightarrow> (Abort 404, st)
         | Some a \<Rightarrow>
             if membership st (a_group_id a) (user_id current_user) = None
             then (Redirect Dashboard [(''You are not a member of this group'', ''danger'')], st)
             else
               (let existing_submission =
                      find (\<lambda>s. s_assignment_id s = assignment_id
                                \<and> s_student_id s = user_id current_user) (submissions st)
                in if meth = POST then
                     (if existing_submission \<noteq> None
                      then (Redirect (View_group (a_group_id a))
                              [(''You have already submitted this assignment'', ''info'')], st)
                      else
                        (case file of
                           None \<Rightarrow>
                             (Render (Submit_page a None (now e))
                                [(''Please select a file to upload'', ''danger'')], st)
                         | Some f \<Rightarrow>
                             if filename f = [] then
                               (Render (Submit_page a None (now e))
                                  [(''Please select a file to upload'', ''danger'')], st)
                             else
                               (case save_file e st f ''submissions'' of
                                  (None, st1) \<Rightarrow>
                                    (Render (Submit_page a None (now e))
                                       [(''Invalid file type'', ''danger'')], st1)
                                | (Some file_path, st1) \<Rightarrow>
                                    (Redirect (View_group (a_group_id a))
                                       [(''Assignment submitted successfully'', ''success'')],
                                     st1 \<lparr> submissions := submissions st1 @
                                            [\<lparr> s_id = next_id (map s_id (submissions st1)),
                                               s_assignment_id = assignment_id,
                                               s_student_id = user_id current_user,
                                               s_file_path = file_path,
                                               s_submitted_at = now e,
                                               s_grade = None,
                                               s_feedback = None \<rparr>] \<rparr>))))
                   else (Render (Submit_page a existing_submission (now e)) [], st))))"

text \<open>
  A value of the JSON body of a request, as \<^verbatim>\<open>request.get_json()\<close> hands it over:
  \<^verbatim>\<open>None\<close>, a \<^verbatim>\<open>bool\<close>, an \<^verbatim>\<open>int\<close>, a \<^verbatim>\<open>float\<close>, a \<^verbatim>\<open>str\<close>, a list or a
  dictionary.
\<close>

datatype jvalue =
    JNull
  | JBool bool
  | JInt int
  | JFloat pyfloat
  | JStr string
  | JArray "jvalue list"
  | JObject "(string \<times> jvalue) list"

text \<open>The truth value Python gives a value in a condition.\<close>

definition truthy :: "jvalue \<Rightarrow> bool" where
  "truthy v =
     (case v of
        JNull \<Rightarrow> False
      | JBool b \<Rightarrow> b
      | JInt i \<Rightarrow> i \<noteq> 0
      | JFloat x \<Rightarrow> x \<noteq> Finite 0
      | JStr s \<Rightarrow> s \<noteq> []
      | JArray xs \<Rightarrow> xs \<noteq> []
      | JObject kvs \<Rightarrow> kvs \<noteq> [])"

text \<open>\<^verbatim>\<open>x < y\<close> on floats: every comparison with NaN is false.\<close>

fun float_less :: "pyfloat \<Rightarrow> pyfloat \<Rightarrow> bool" where
  "float_less (Finite a) (Finite b) = (a < b)"
| "float_less (Finite a) PosInf = True"
| "float_less NegInf (Finite b) = True"
| "float_less NegInf PosInf = True"
| "float_less x y = False"

text \<open>
  \<^verbatim>\<open>float(v)\<close>. An \<^verbatim>\<open>int\<close> at or beyond \<open>2^1024 - 2^970\<close> in magnitude raises
  \<^verbatim>\<open>OverflowError\<close>; below it the model keeps the integer's own value, which the
  rounding to a double leaves on the same side of 0 and of 100. A string goes to the
  parameter \<open>float_of_str\<close>; a list, a dictionary and \<^verbatim>\<open>None\<close> raise
  \<^verbatim>\<open>TypeError\<close>.
\<close>

definition py_float :: "env \<Rightarrow> jvalue \<Rightarrow> pyexc + pyfloat" where
  "py_float e v =
     (case v of
        JNull \<Rightarrow> Inl TypeError
      | JBool b \<Rightarrow> Inr (Finite (if b then 1 else 0))
      | JInt i \<Rightarrow>
          if \<bar>i\<bar> \<ge> 2 ^ 1024 - 2 ^ 970 then Inl OverflowError else Inr (Finite (of_int i))
      | JFloat x \<Rightarrow> Inr x
      | JStr s \<Rightarrow> (case float_of_str e s of None \<Rightarrow> Inl ValueError | Some x \<Rightarrow> Inr x)
      | JArray xs \<Rightarrow> Inl TypeError
      | JObject kvs \<Rightarrow> Inl TypeError)"

text \<open>
  The JSON body of a grading request, taken to be a dictionary: \<open>gr_student_id\<close> is
  the student the key \<^verbatim>\<open>student_id\<close> names (\<open>None\<close> when absent), \<open>gr_grade\<close> the
  value under \<^verbatim>\<open>grade\<close> (\<open>JNull\<close> when absent), \<open>gr_feedback\<close> the text under
  \<^verbatim>\<open>feedback\<close> (\<open>None\<close> when absent).
\<close>

record grade_request =
  gr_student_id :: "nat option"
  gr_grade :: jvalue
  gr_feedback :: "string option"

text \<open>
  The block \<^verbatim>\<open># Validate grade\<close> of \<^verbatim>\<open>grade_assignment\<close>: the response that ends
  the request, or the value to store (\<open>None\<close> for no grade). Of the exceptions
  \<^verbatim>\<open>float\<close> raises the handler catches \<^verbatim>\<open>ValueError\<close> alone.
\<close>

definition validate_grade :: "env \<Rightarrow> jvalue \<Rightarrow> response + pyfloat option" where
  "validate_grade e grade =
     (if truthy grade \<and> grade \<noteq> JStr [] then
        (case py_float e grade of
           Inr grade_value \<Rightarrow>
             if float_less grade_value (Finite 0) \<or> float_less (Finite 100) grade_value
             then Inl (Json 400 (Error_body ''Grade must be between 0 and 100''))
             else Inr (Some grade_value)
         | Inl ValueError \<Rightarrow> Inl (Json 400 (Error_body ''Invalid grade format''))
         | Inl other \<Rightarrow> Inl (Unhandled other))
      else Inr None)"

text \<open>
  What the column \<^verbatim>\<open>grade\<close> holds once the handler has assigned \<open>grade_value\<close> to
  the row and committed: null for \<^verbatim>\<open>None\<close>, the database's decimal for a float;
  \<open>None\<close> where the database refuses the float.
\<close>

definition grade_column :: "env \<Rightarrow> pyfloat option \<Rightarrow> rat option option" where
  "grade_column e grade_value =
     (case grade_value of
        None \<Rightarrow> Some None
      | Some x \<Rightarrow> (case numeric_5_2 e x of None \<Rightarrow> None | Some d \<Rightarrow> Some (Some d)))"

text \<open>
  \<^verbatim>\<open>grade_assignment\<close>. \<open>committed\<close> tells whether the commit goes through otherwise;
  when the database refuses the grade or the commit fails, the handler rolls back.
  \<^verbatim>\<open>assignment.group\<close> is the group row the assignment points to.
\<close>

definition grade_assignment ::
  "env \<Rightarrow> bool \<Rightarrow> state \<Rightarrow> user \<Rightarrow> nat \<Rightarrow> grade_request \<Rightarrow> response \<times> state" where
  "grade_assignment e committed st current_user assignment_id data =
     (if role current_user \<noteq> ''teacher''
      then (Json 403 (Error_body ''Only teachers can grade assignments''), st)
      else
        (case find (\<lambda>a. a_id a = assignment_id) (assignments st) of
           None \<Rightarrow> (Abort 404, st)
         | Some a \<Rightarrow>
             (case find (\<lambda>g. g_id g = a_group_id a) (groups st) of
                None \<Rightarrow> (Unhandled AttributeError, st)
              | Some g \<Rightarrow>
                  if g_teacher_id g \<noteq> user_id current_user
                  then (Json 403 (Error_body ''You are not the teacher of this group''), st)
                  else
                    (let feedback = (case gr_feedback data of None \<Rightarrow> [] | Some t \<Rightarrow> t)
                     in case validate_grade e (gr_grade data) of
                          Inl failure \<Rightarrow> (failure, st)
                        | Inr grade_value \<Rightarrow>
                            (case (case gr_student_id data of
                                     None \<Rightarrow> None
                                   | Some sid \<Rightarrow>
                                       find (\<lambda>s. s_assignment_id s = assignment_id
                                                 \<and> s_student_id s = sid) (submissions st)) of
                               None \<Rightarrow> (Json 404 (Error_body ''Submission not found''), st)
                             | Some sub \<Rightarrow>
                                 (case grade_column e grade_value of
                                    None \<Rightarrow>
                                      (Json 500 (Error_body ''Database error occurred''), st)
                                  | Some stored \<Rightarrow>
                                      if committed then
                                        (Json 200 (Message_body ''Grade updated successfully''),
                                         st \<lparr> submissions :=
                                                map (\<lambda>s. if s_id s = s_id sub
                                                          then s \<lparr> s_grade := stored,
                                                                  s_feedback := Some feedback \<rparr>
                                                          else s) (submissions st) \<rparr>)
                                      else
                                        (Json 500 (Error_body ''Database error occurred''),
                                         st)))))))"

section \<open>Example data\<close>

text \<open>
  A small classroom for the examples below: a teacher, a student who is a member of
  the teacher's group, a student who is not, one journal entry written after the one
  assignment fell due, and one submission.
\<close>

definition t0 :: datetime where
  "t0 = (2024, 1, 10, 9, 0, 0, 0)"

definition teacher1 :: user where
  "teacher1 = \<lparr> user_id = 1, username = ''tina'', email = ''tina@example.org'',
      password_hash = ''h1'', role = ''teacher'', full_name = ''Tina Teacher'',
      profile_picture = None, contact_details = None, user_created_at = t0 \<rparr>"

definition student2 :: user where
  "student2 = \<lparr> user_id = 2, username = ''sam'', email = ''sam@example.org'',
      password_hash = ''h2'', role = ''student'', full_name = ''Sam Student'',
      profile_picture = None, contact_details = None, user_created_at = t0 \<rparr>"

definition student3 :: user where
  "student3 = \<lparr> user_id = 3, username = ''olga'', email = ''olga@example.org'',
      password_hash = ''h3'', role = ''student'', full_name = ''Olga Outsider'',
      profile_picture = None, contact_details = None, user_created_at = t0 \<rparr>"

definition group1 :: group where
  "group1 = \<lparr> g_id = 1, g_name = ''CS101'', g_description = None, g_teacher_id = 1,
      g_join_password = ''abc123'', g_project_question = None, g_created_at = t0 \<rparr>"

definition member1 :: group_member where
  "member1 = \<lparr> gm_id = 1, gm_group_id = 1, gm_student_id = 2, gm_joined_at = t0 \<rparr>"

definition log1 :: log_entry where
  "log1 = \<lparr> le_id = 1, le_group_id = 1, le_student_id = 2, le_title = ''Week1'',
      le_content = replicate 120 (CHR ''x''), le_media_url = None,
      le_created_at = (2024, 5, 1, 12, 0, 0, 0) \<rparr>"

definition assignment1 :: assignment where
  "assignment1 = \<lparr> a_id = 1, a_group_id = 1, a_teacher_id = 1, a_title = ''Essay'',
      a_description = ''Write an essay'', a_question_file = None,
      a_due_date = (2024, 3, 1, 23, 59, 0, 0), a_created_at = t0 \<rparr>"

definition submission1 :: submission where
  "submission1 = \<lparr> s_id = 1, s_assignment_id = 1, s_student_id = 2,
      s_file_path = ''uploads/submissions/20240220_101500_essay.pdf'',
      s_submitted_at = (2024, 2, 20, 10, 15, 0, 0),
      s_grade = Some 60, s_feedback = None \<rparr>"

definition state1 :: state where
  "state1 = \<lparr> users = [teacher1, student2, student3], groups = [group1],
      group_members = [member1], log_entries = [log1], assignments = [assignment1],
      submissions = [submission1], files = Map.empty, dirs = {} \<rparr>"

text \<open>
  An environment for the examples. Its \<open>float_of_str\<close> reads the plain decimal numerals
  (digits with at most one point), which Python's \<^verbatim>\<open>float\<close> reads the same way when
  the value is a double, as 150 and 87.5 are; its \<open>numeric_5_2\<close> rounds a finite
  value to two places and refuses what does not fit five digits; the other functions
  are stand-ins.
\<close>

definition two_places :: "pyfloat \<Rightarrow> rat option" where
  "two_places x =
     (case x of
        Finite r \<Rightarrow>
          (let d = of_int (round (r * 100)) / 100 in if \<bar>d\<bar> < 1000 then Some d else None)
      | PosInf \<Rightarrow> None
      | NegInf \<Rightarrow> None
      | NaN \<Rightarrow> None)"

definition plain_decimal :: "string \<Rightarrow> pyfloat option" where
  "plain_decimal s =
     (let whole = takeWhile (\<lambda>c. c \<noteq> CHR ''.'') s;
          frac = drop 1 (dropWhile (\<lambda>c. c \<noteq> CHR ''.'') s);
          ds = whole @ frac
      in if ds \<noteq> [] \<and> list_all (\<lambda>c. 48 \<le> (of_char c :: nat) \<and> (of_char c :: nat) \<le> 57) ds
         then Some (Finite (of_nat (foldl (\<lambda>a c. 10 * a + (of_char c - 48)) 0 ds)
                            / 10 ^ length frac))
         else None)"

definition env1 :: env where
  "env1 = \<lparr> now = (2024, 6, 3, 10, 0, 0, 0), basedir = ''/srv/journal'',
      secure_filename = (\<lambda>s. map (\<lambda>c. if c = CHR '' '' then CHR ''_'' else c) s),
      generate_password_hash = (\<lambda>p. ''hash of '' @ p),
      float_of_str = plain_decimal, numeric_5_2 = two_places \<rparr>"



text \<open>The two events the timeline of the group holds, in the order it gives them.\<close>

definition log1_event :: event where
  "log1_event = \<lparr> ev_id = ''log_1'', ev_content = ''Week1'', ev_start = (2024, 5, 1),
      ev_type = ''point'', ev_className = ''log-entry'', ev_title = ''By: Sam Student'',
      ev_description = replicate 100 (CHR ''x'') @ ''...'' \<rparr>"

definition assignment1_event :: event where
  "assignment1_event = \<lparr> ev_id = ''assignment_1'', ev_content = ''Essay'',
      ev_start = (2024, 3, 1), ev_type = ''point'', ev_className = ''assignment'',
      ev_title = ''Assignment Due'', ev_description = ''Write an essay'' \<rparr>"

text \<open>
  The classroom with a second assignment, due later and not submitted by anyone, and
  a time before either assignment falls due.
\<close>

definition assignment2 :: assignment where
  "assignment2 = \<lparr> a_id = 2, a_group_id = 1, a_teacher_id = 1, a_title = ''Report'',
      a_description = ''Write a report'', a_question_file = None,
      a_due_date = (2024, 9, 1, 23, 59, 0, 0), a_created_at = t0 \<rparr>"

definition state2 :: state where
  "state2 = state1 \<lparr> assignments := [assignment1, assignment2] \<rparr>"

definition env2 :: env where
  "env2 = env1 \<lparr> now := (2024, 2, 25, 9, 0, 0, 0) \<rparr>"

text \<open>A registration for the role \<open>admin\<close>, and the account it stores.\<close>

definition admin_form :: register_form where
  "admin_form = \<lparr> rf_username = ''eve'', rf_email = ''eve@example.org'',
      rf_full_name = ''Eve'', rf_password = ''pw'', rf_confirm_password = ''pw'',
      rf_role = Some ''admin'', rf_profile_picture = None \<rparr>"

definition admin_account :: user where
  "admin_account = \<lparr> user_id = 4, username = ''eve'', email = ''eve@example.org'',
      password_hash = ''hash of pw'', role = ''admin'', full_name = ''Eve'',
      profile_picture = None, contact_details = None,
      user_created_at = (2024, 6, 3, 10, 0, 0, 0) \<rparr>"

text \<open>A PDF offered as a profile picture.\<close>

definition cv_pdf :: upload where
  "cv_pdf = \<lparr> filename = ''cv.pdf'', payload = ''%PDF-1.7'' \<rparr>"

section \<open>Auxiliary definitions for the statements\<close>

text \<open>
  The texts the events of a group's timeline are cut from, in the order of the events:
  the bodies of the journal entries, then the descriptions of the assignments.
\<close>

definition timeline_sources :: "state \<Rightarrow> nat \<Rightarrow> string list" where
  "timeline_sources st group_id =
     map le_content (timeline_logs st group_id) @
     map a_description (timeline_assignments st group_id)"

section \<open>Properties of the timeline\<close>

lemma str_nat_Suc_0: "str_nat (Suc 0) = ''1''"
  by code_simp

lemma strftime_Ymd_mono: "s \<le> t \<Longrightarrow> strftime_Ymd s \<le> strftime_Ymd t"
  by (auto simp: strftime_Ymd_def less_eq_prod_def less_prod_def split: prod.splits)

lemma sorted_map_mono:
  assumes "\<And>x y. f x \<le> f y \<Longrightarrow> g x \<le> g y" and "sorted (map f xs)"
  shows "sorted (map g xs)"
  using assms(2) by (induction xs) (auto intro: assms(1))

lemma for_each_log_event:
  "for_each (log_event st) xs = Inr evs \<Longrightarrow>
     map ev_start evs = map (\<lambda>l. strftime_Ymd (le_created_at l)) xs \<and>
     map ev_description evs =
       map (\<lambda>l. if length (le_content l) > 100 then take 100 (le_content l) @ ''...''
                 else le_content l) xs"
proof (induction xs arbitrary: evs)
  case Nil
  then show ?case by simp
next
  case (Cons x xs)
  then show ?case
    by (auto simp: log_event_def split: sum.splits option.splits)
qed

lemma find_Some_of_image:
  "x \<in> f ` set xs \<Longrightarrow> \<exists>y. find (\<lambda>z. f z = x) xs = Some y"
  by (induction xs) auto

lemma timeline_events:
  assumes "get_timeline_data st u gid = (Json code (Events_body evs), st')"
  obtains ls where "for_each (log_event st) (timeline_logs st gid) = Inr ls"
    and "evs = ls @ map assignment_event (timeline_assignments st gid)"
  using assms by (auto simp: get_timeline_data_def split: if_splits sum.splits)

lemma timeline_state1:
  "get_timeline_data state1 teacher1 1 =
     (Json 200 (Events_body [log1_event, assignment1_event]), state1)"
  by (simp add: get_timeline_data_def state1_def teacher1_def student2_def student3_def
      group1_def log1_def assignment1_def timeline_logs_def timeline_assignments_def
      log_event_def assignment_event_def strftime_Ymd_def str_nat_Suc_0 membership_def
      log1_event_def assignment1_event_def)

text \<open>
  The handler returns the events whenever the access check lets the user through and
  every journal entry of the database has its author among the users.
\<close>

lemma get_timeline_data_returns:
  assumes "role u = ''student'' \<longrightarrow> membership st gid (user_id u) \<noteq> None"
    and "role u = ''teacher'' \<longrightarrow>
           (\<exists>g. find (\<lambda>g. g_id g = gid) (groups st) = Some g \<and> g_teacher_id g = user_id u)"
    and "le_student_id ` set (log_entries st) \<subseteq> user_id ` set (users st)"
  shows "\<exists>evs. get_timeline_data st u gid = (Json 200 (Events_body evs), st)"
proof -
  have all: "\<exists>evs. for_each (log_event st) xs = Inr evs" if "set xs \<subseteq> set (log_entries st)" for xs
    using that
  proof (induction xs)
    case Nil
    then show ?case by simp
  next
    case (Cons x xs)
    then have "le_student_id x \<in> user_id ` set (users st)" using assms(3) by auto
    then obtain y where "find (\<lambda>z. user_id z = le_student_id x) (users st) = Some y"
      using find_Some_of_image by fastforce
    then obtain ev where "log_event st x = Inr ev" by (simp add: log_event_def)
    moreover from Cons obtain evs where "for_each (log_event st) xs = Inr evs" by auto
    ultimately show ?case by simp
  qed
  have "set (timeline_logs st gid) \<subseteq> set (log_entries st)"
    by (auto simp: timeline_logs_def)
  from all [OF this] obtain evs where "for_each (log_event st) (timeline_logs st gid) = Inr evs"
    by blast
  then show ?thesis
    using assms(1,2) by (auto simp: get_timeline_data_def)
qed

text \<open>
  Claim C7. Every event of the timeline carries the text it was made from (the body of
  the journal entry, the description of the assignment), cut: a text of more than 100
  characters becomes its first 100 characters followed by \<open>...\<close>, 103 characters in
  all; a text of at most 100 characters is left as it is.
\<close>

theorem timeline_description_cut:
  assumes "get_timeline_data st u gid = (Json code (Events_body evs), st')"
  shows "length evs = length (timeline_sources st gid) \<and>
    (\<forall>i < length evs.
       (length (timeline_sources st gid ! i) > 100 \<longrightarrow>
          ev_description (evs ! i) = take 100 (timeline_sources st gid ! i) @ ''...'' \<and>
          length (ev_description (evs ! i)) = 103) \<and>
       (length (timeline_sources st gid ! i) \<le> 100 \<longrightarrow>
          ev_description (evs ! i) = timeline_sources st gid ! i))"
proof -
  define cut where "cut = (\<lambda>s::string. if length s > 100 then take 100 s @ ''...'' else s)"
  define src where "src = timeline_sources st gid"
  from assms obtain ls where ls: "for_each (log_event st) (timeline_logs st gid) = Inr ls"
    and evs: "evs = ls @ map assignment_event (timeline_assignments st gid)"
    by (rule timeline_events)
  have "map ev_description ls = map cut (map le_content (timeline_logs st gid))"
    using for_each_log_event [OF ls] by (simp add: comp_def cut_def)
  moreover have "map ev_description (map assignment_event (timeline_assignments st gid))
      = map cut (map a_description (timeline_assignments st gid))"
    by (simp add: assignment_event_def comp_def cut_def)
  ultimately have d: "map ev_description evs = map cut src"
    by (simp add: evs timeline_sources_def src_def)
  have len: "length evs = length src"
    using arg_cong [OF d, of length] by simp
  have nth: "ev_description (evs ! i) = cut (src ! i)" if "i < length evs" for i
    using arg_cong [OF d, of "\<lambda>xs. xs ! i"] that len by simp
  have long: "cut s = take 100 s @ ''...'' \<and> length (cut s) = 103" if "length s > 100" for s
    using that by (simp add: cut_def)
  have short: "cut s = s" if "length s \<le> 100" for s
    using that by (simp add: cut_def)
  show ?thesis
    unfolding src_def [symmetric]
  proof (intro conjI allI impI)
    show "length evs = length src" by (rule len)
  next
    fix i assume "i < length evs" "100 < length (src ! i)"
    then show "ev_description (evs ! i) = take 100 (src ! i) @ ''...''"
      by (simp add: nth long)
  next
    fix i assume "i < length evs" "100 < length (src ! i)"
    then show "length (ev_description (evs ! i)) = 103"
      by (simp add: nth long)
  next
    fix i assume "i < length evs" "length (src ! i) \<le> 100"
    then show "ev_description (evs ! i) = src ! i"
      by (simp add: nth short)
  qed
qed

theorem timeline_description_cut_witness:
  "get_timeline_data state1 teacher1 1 =
     (Json 200 (Events_body [log1_event, assignment1_event]), state1) \<and>
   timeline_sources state1 1 = [le_content log1, a_description assignment1] \<and>
   length (le_content log1) = 120 \<and>
   ev_description log1_event = take 100 (le_content log1) @ ''...'' \<and>
   length (ev_description log1_event) = 103 \<and>
   length (a_description assignment1) = 14 \<and>
   ev_description assignment1_event = a_description assignment1"
proof -
  have h: "get_timeline_data state1 teacher1 1 =
      (Json 200 (Events_body [log1_event, assignment1_event]), state1)"
    by (rule timeline_state1)
  have src: "timeline_sources state1 1 = [le_content log1, a_description assignment1]"
    by (simp add: timeline_sources_def timeline_logs_def timeline_assignments_def
        state1_def log1_def assignment1_def)
  have l1: "length (le_content log1) = 120" and l2: "length (a_description assignment1) = 14"
    by (simp_all add: log1_def assignment1_def)
  note t = timeline_description_cut [OF h, unfolded src]
  from t have a: "\<forall>i<2. (length ([le_content log1, a_description assignment1] ! i) > 100 \<longrightarrow>
          ev_description ([log1_event, assignment1_event] ! i) =
            take 100 ([le_content log1, a_description assignment1] ! i) @ ''...'' \<and>
          length (ev_description ([log1_event, assignment1_event] ! i)) = 103) \<and>
       (length ([le_content log1, a_description assignment1] ! i) \<le> 100 \<longrightarrow>
          ev_description ([log1_event, assignment1_event] ! i) =
            [le_content log1, a_description assignment1] ! i)"
    by simp
  from a [rule_format, of 0] l1
  have e0: "ev_description log1_event = take 100 (le_content log1) @ ''...''"
    and e0': "length (ev_description log1_event) = 103"
    by simp_all
  from a [rule_format, of 1] l2
  have e1: "ev_description assignment1_event = a_description assignment1"
    by simp
  show ?thesis using h src l1 l2 e0 e0' e1 by simp
qed

text \<open>
  Claim C1, as stated, fails: the handler appends the events of the assignments to the
  events of the journal entries and never sorts the whole. In the example the entry of
  1 May 2024 comes before the assignment that fell due on 1 March 2024.
\<close>

theorem timeline_sorted_counterexample:
  "get_timeline_data state1 teacher1 1 =
     (Json 200 (Events_body [log1_event, assignment1_event]), state1) \<and>
   ev_start log1_event = (2024, 5, 1) \<and>
   ev_start assignment1_event = (2024, 3, 1) \<and>
   \<not> ev_start log1_event \<le> ev_start assignment1_event \<and>
   \<not> sorted (map ev_start [log1_event, assignment1_event])"
  using timeline_state1 by (simp add: log1_event_def assignment1_event_def)

text \<open>
  Claim C1, amended. The dates of the events are the creation dates of the group's
  journal entries, in ascending order, followed by the due dates of the group's
  assignments, in ascending order: each of the two runs is sorted by date.
\<close>

theorem timeline_sorted_runs:
  assumes "get_timeline_data st u gid = (Json code (Events_body evs), st')"
  shows "map ev_start evs =
           map (\<lambda>l. strftime_Ymd (le_created_at l)) (timeline_logs st gid) @
           map (\<lambda>a. strftime_Ymd (a_due_date a)) (timeline_assignments st gid) \<and>
         sorted (map (\<lambda>l. strftime_Ymd (le_created_at l)) (timeline_logs st gid)) \<and>
         sorted (map (\<lambda>a. strftime_Ymd (a_due_date a)) (timeline_assignments st gid))"
proof -
  from assms obtain ls where ls: "for_each (log_event st) (timeline_logs st gid) = Inr ls"
    and evs: "evs = ls @ map assignment_event (timeline_assignments st gid)"
    by (rule timeline_events)
  have 1: "map ev_start evs =
           map (\<lambda>l. strftime_Ymd (le_created_at l)) (timeline_logs st gid) @
           map (\<lambda>a. strftime_Ymd (a_due_date a)) (timeline_assignments st gid)"
    using for_each_log_event [OF ls] by (simp add: evs assignment_event_def comp_def)
  have 2: "sorted (map (\<lambda>l. strftime_Ymd (le_created_at l)) (timeline_logs st gid))"
    by (rule sorted_map_mono [where f = le_created_at])
       (simp_all add: strftime_Ymd_mono timeline_logs_def)
  have 3: "sorted (map (\<lambda>a. strftime_Ymd (a_due_date a)) (timeline_assignments st gid))"
    by (rule sorted_map_mono [where f = a_due_date])
       (simp_all add: strftime_Ymd_mono timeline_assignments_def)
  show ?thesis using 1 2 3 by simp
qed

theorem timeline_sorted_runs_witness:
  "get_timeline_data state1 teacher1 1 =
     (Json 200 (Events_body [log1_event, assignment1_event]), state1) \<and>
   map ev_start [log1_event, assignment1_event] = [(2024, 5, 1)] @ [(2024, 3, 1)] \<and>
   timeline_logs state1 1 = [log1] \<and>
   timeline_assignments state1 1 = [assignment1] \<and>
   sorted (map (\<lambda>l. strftime_Ymd (le_created_at l)) [log1]) \<and>
   sorted (map (\<lambda>a. strftime_Ymd (a_due_date a)) [assignment1])"
proof -
  have h: "get_timeline_data state1 teacher1 1 =
      (Json 200 (Events_body [log1_event, assignment1_event]), state1)"
    by (rule timeline_state1)
  have ls: "timeline_logs state1 1 = [log1]"
    by (simp add: timeline_logs_def state1_def log1_def)
  have as: "timeline_assignments state1 1 = [assignment1]"
    by (simp add: timeline_assignments_def state1_def assignment1_def)
  from timeline_sorted_runs [OF h]
  have "map ev_start [log1_event, assignment1_event] =
      [strftime_Ymd (le_created_at log1)] @ [strftime_Ymd (a_due_date assignment1)]"
    unfolding ls as by simp
  then have "map ev_start [log1_event, assignment1_event] = [(2024, 5, 1)] @ [(2024, 3, 1)]"
    by (simp add: log1_def assignment1_def strftime_Ymd_def)
  then show ?thesis using h ls as by simp
qed

section \<open>Properties of the access checks\<close>

lemma state1_simps:
  "users state1 = [teacher1, student2, student3]"
  "groups state1 = [group1]"
  "group_members state1 = [member1]"
  "log_entries state1 = [log1]"
  "assignments state1 = [assignment1]"
  "submissions state1 = [submission1]"
  by (simp_all add: state1_def)

text \<open>
  Claim C6. A student who holds no membership in a group of the database is turned away
  by the group page and by the creation of a journal entry in it (a redirect to the
  dashboard with the message of the failed check) and by the group's timeline (status
  403); none of the three changes the state.
\<close>

theorem nonmember_student_denied:
  assumes "role u = ''student''"
    and "gid \<in> g_id ` set (groups st)"
    and "membership st gid (user_id u) = None"
    and "lf_group_id form = Some gid"
  shows "view_group e st u gid =
           (Redirect Dashboard [(''You are not a member of this group'', ''danger'')], st) \<and>
         create_log e st u POST form =
           (Redirect Dashboard [(''You are not a member of this group'', ''danger'')], st) \<and>
         get_timeline_data st u gid = (Json 403 (Error_body ''Access denied''), st)"
proof -
  from assms(2) obtain g where "find (\<lambda>g. g_id g = gid) (groups st) = Some g"
    using find_Some_of_image by fastforce
  then have "view_group e st u gid =
      (Redirect Dashboard [(''You are not a member of this group'', ''danger'')], st)"
    using assms(1,3) by (simp add: view_group_def)
  moreover have "create_log e st u POST form =
      (Redirect Dashboard [(''You are not a member of this group'', ''danger'')], st)"
    using assms(1,3,4) by (simp add: create_log_def Let_def)
  moreover have "get_timeline_data st u gid = (Json 403 (Error_body ''Access denied''), st)"
    using assms(1,3) by (simp add: get_timeline_data_def)
  ultimately show ?thesis by simp
qed

theorem nonmember_student_denied_witness:
  "role student3 = ''student'' \<and> 1 \<in> g_id ` set (groups state1) \<and>
   membership state1 1 (user_id student3) = None \<and>
   view_group env1 state1 student3 1 =
     (Redirect Dashboard [(''You are not a member of this group'', ''danger'')], state1) \<and>
   create_log env1 state1 student3 POST
       \<lparr> lf_group_id = Some 1, lf_title = ''Week2'', lf_content = ''notes'', lf_media = None \<rparr> =
     (Redirect Dashboard [(''You are not a member of this group'', ''danger'')], state1) \<and>
   get_timeline_data state1 student3 1 = (Json 403 (Error_body ''Access denied''), state1)"
proof -
  have 1: "role student3 = ''student''" by (simp add: student3_def)
  have 2: "1 \<in> g_id ` set (groups state1)" by (simp add: state1_simps group1_def)
  have 3: "membership state1 1 (user_id student3) = None"
    by (simp add: membership_def state1_simps member1_def student3_def)
  have 4: "lf_group_id \<lparr> lf_group_id = Some 1, lf_title = ''Week2'', lf_content = ''notes'',
      lf_media = None \<rparr> = Some 1" by simp
  show ?thesis
    using 1 2 3 nonmember_student_denied [OF 1 2 3 4, of env1] by simp
qed

section \<open>Properties of submitting\<close>

text \<open>
  Claim C4. When a submission of the student for the assignment exists, a further
  submit request of that student, a member of the assignment's group, is answered with
  the message that the assignment has been submitted already, and the state, the
  submissions among it, stays as it was.
\<close>

theorem duplicate_submission_rejected:
  assumes "role u = ''student''"
    and "find (\<lambda>a. a_id a = aid) (assignments st) = Some a"
    and "membership st (a_group_id a) (user_id u) \<noteq> None"
    and "s \<in> set (submissions st)"
    and "s_assignment_id s = aid" and "s_student_id s = user_id u"
  shows "submit_assignment e st u POST aid file =
           (Redirect (View_group (a_group_id a))
              [(''You have already submitted this assignment'', ''info'')], st)"
proof -
  have "find (\<lambda>s. s_assignment_id s = aid \<and> s_student_id s = user_id u) (submissions st) \<noteq> None"
    using assms(4-6) by (auto simp: find_None_iff)
  then show ?thesis
    using assms(1-3) by (simp add: submit_assignment_def Let_def)
qed

theorem duplicate_submission_rejected_witness:
  "role student2 = ''student'' \<and>
   find (\<lambda>a. a_id a = 1) (assignments state1) = Some assignment1 \<and>
   membership state1 (a_group_id assignment1) (user_id student2) \<noteq> None \<and>
   submission1 \<in> set (submissions state1) \<and>
   s_assignment_id submission1 = 1 \<and> s_student_id submission1 = user_id student2 \<and>
   submit_assignment env1 state1 student2 POST 1
       (Some \<lparr> filename = ''essay2.pdf'', payload = ''second try'' \<rparr>) =
     (Redirect (View_group 1) [(''You have already submitted this assignment'', ''info'')], state1)"
proof -
  have 1: "role student2 = ''student''" by (simp add: student2_def)
  have 2: "find (\<lambda>a. a_id a = 1) (assignments state1) = Some assignment1"
    by (simp add: state1_simps assignment1_def)
  have 3: "membership state1 (a_group_id assignment1) (user_id student2) \<noteq> None"
    by (simp add: membership_def state1_simps member1_def student2_def assignment1_def)
  have 4: "submission1 \<in> set (submissions state1)" by (simp add: state1_simps)
  have 5: "s_assignment_id submission1 = 1" by (simp add: submission1_def)
  have 6: "s_student_id submission1 = user_id student2"
    by (simp add: submission1_def student2_def)
  have g: "a_group_id assignment1 = 1" by (simp add: assignment1_def)
  show ?thesis
    using 1 2 3 4 5 6 duplicate_submission_rejected [OF 1 2 3 4 5 6, of env1] g by simp
qed

text \<open>
  The same for two requests in a row: after a submit request that succeeded, the next
  submit request of the student for the assignment is refused and changes nothing.
\<close>

lemma save_file_tables:
  "save_file e st f sub = (p, st1) \<Longrightarrow>
     users st1 = users st \<and> groups st1 = groups st \<and> group_members st1 = group_members st \<and>
     log_entries st1 = log_entries st \<and> assignments st1 = assignments st \<and>
     submissions st1 = submissions st"
  by (auto simp: save_file_def Let_def split: if_splits)

lemma second_submission_rejected:
  assumes "submit_assignment e st u POST aid file =
     (Redirect (View_group gid) [(''Assignment submitted successfully'', ''success'')], st1)"
  shows "submit_assignment e' st1 u POST aid file' =
     (Redirect (View_group gid) [(''You have already submitted this assignment'', ''info'')], st1)"
proof -
  from assms obtain a f path st0 where u: "role u = ''student''"
    and a: "find (\<lambda>a. a_id a = aid) (assignments st) = Some a" "a_group_id a = gid"
    and m: "membership st (a_group_id a) (user_id u) \<noteq> None"
    and s: "save_file e st f ''submissions'' = (Some path, st0)"
    and st1: "st1 = st0 \<lparr> submissions := submissions st0 @
                 [\<lparr> s_id = next_id (map s_id (submissions st0)), s_assignment_id = aid,
                    s_student_id = user_id u, s_file_path = path, s_submitted_at = now e,
                    s_grade = None, s_feedback = None \<rparr>] \<rparr>"
    by (auto simp: submit_assignment_def Let_def
        split: if_splits option.splits prod.splits)
  note t = save_file_tables [OF s]
  have a1: "find (\<lambda>a. a_id a = aid) (assignments st1) = Some a"
    using a t by (simp add: st1)
  have m1: "membership st1 (a_group_id a) (user_id u) \<noteq> None"
    using m t by (simp add: st1 membership_def)
  have "\<lparr> s_id = next_id (map s_id (submissions st0)), s_assignment_id = aid,
          s_student_id = user_id u, s_file_path = path, s_submitted_at = now e,
          s_grade = None, s_feedback = None \<rparr> \<in> set (submissions st1)"
    by (simp add: st1)
  then have "find (\<lambda>s. s_assignment_id s = aid \<and> s_student_id s = user_id u) (submissions st1) \<noteq> None"
    unfolding find_None_iff by force
  then show ?thesis
    using u a1 m1 a(2) by (simp add: submit_assignment_def Let_def)
qed

section \<open>Properties of joining a group\<close>



lemma join_group_success:
  assumes "join_group e st u POST pw = (Redirect (View_group gid) [(msg, ''success'')], st1)"
  obtains s g where "role u = ''student''" and "pw = Some s" and "s \<noteq> []"
    and "find (\<lambda>g. g_join_password g = s) (groups st) = Some g" and "g_id g = gid"
    and "membership st gid (user_id u) = None"
    and "st1 = st \<lparr> group_members := group_members st @
            [\<lparr> gm_id = next_id (map gm_id (group_members st)), gm_group_id = gid,
               gm_student_id = user_id u, gm_joined_at = now e \<rparr>] \<rparr>"
  using assms
  by (auto simp: join_group_def split: if_splits option.splits)






section \<open>Properties of grading\<close>

lemma find_map_preserve:
  "(\<And>x. P (f x) = P x) \<Longrightarrow> find P (map f xs) = map_option f (find P xs)"
  by (induction xs) auto

text \<open>What the handler does once the teacher is known to own the assignment's group.\<close>

lemma grade_by_owner:
  assumes "role u = ''teacher''"
    and "find (\<lambda>a. a_id a = aid) (assignments st) = Some a"
    and "find (\<lambda>g. g_id g = a_group_id a) (groups st) = Some g"
    and "g_teacher_id g = user_id u"
  shows "grade_assignment e c st u aid data =
    (case validate_grade e (gr_grade data) of
       Inl failure \<Rightarrow> (failure, st)
     | Inr grade_value \<Rightarrow>
         (case (case gr_student_id data of
                  None \<Rightarrow> None
                | Some sid \<Rightarrow>
                    find (\<lambda>s. s_assignment_id s = aid \<and> s_student_id s = sid) (submissions st)) of
            None \<Rightarrow> (Json 404 (Error_body ''Submission not found''), st)
          | Some sub \<Rightarrow>
              (case grade_column e grade_value of
                 None \<Rightarrow> (Json 500 (Error_body ''Database error occurred''), st)
               | Some stored \<Rightarrow>
                   if c then
                     (Json 200 (Message_body ''Grade updated successfully''),
                      st \<lparr> submissions :=
                             map (\<lambda>s. if s_id s = s_id sub
                                       then s \<lparr> s_grade := stored,
                                               s_feedback := Some (case gr_feedback data of
                                                                     None \<Rightarrow> [] | Some t \<Rightarrow> t) \<rparr>
                                       else s) (submissions st) \<rparr>)
                   else (Json 500 (Error_body ''Database error occurred''), st))))"
  using assms by (simp add: grade_assignment_def Let_def)

lemma grade_rejected:
  assumes "role u = ''teacher''"
    and "find (\<lambda>a. a_id a = aid) (assignments st) = Some a"
    and "find (\<lambda>g. g_id g = a_group_id a) (groups st) = Some g"
    and "g_teacher_id g = user_id u"
    and "validate_grade e (gr_grade data) = Inl failure"
  shows "grade_assignment e c st u aid data = (failure, st)"
  unfolding grade_by_owner [OF assms(1-4)] by (simp add: assms(5))

lemma grade_stored:
  assumes "role u = ''teacher''"
    and "find (\<lambda>a. a_id a = aid) (assignments st) = Some a"
    and "find (\<lambda>g. g_id g = a_group_id a) (groups st) = Some g"
    and "g_teacher_id g = user_id u"
    and "gr_student_id data = Some sid"
    and "find (\<lambda>s. s_assignment_id s = aid \<and> s_student_id s = sid) (submissions st) = Some sub"
    and "validate_grade e (gr_grade data) = Inr v"
    and "grade_column e v = Some w"
    and "grade_assignment e True st u aid data = (r, st')"
  shows "r = Json 200 (Message_body ''Grade updated successfully'') \<and>
     find (\<lambda>s. s_assignment_id s = aid \<and> s_student_id s = sid) (submissions st') =
       Some (sub \<lparr> s_grade := w,
                   s_feedback := Some (case gr_feedback data of None \<Rightarrow> [] | Some t \<Rightarrow> t) \<rparr>) \<and>
     length (submissions st') = length (submissions st)"
proof -
  let ?f = "\<lambda>s. if s_id s = s_id sub
                then s \<lparr> s_grade := w,
                        s_feedback := Some (case gr_feedback data of None \<Rightarrow> [] | Some t \<Rightarrow> t) \<rparr>
                else s"
  have "grade_assignment e True st u aid data =
      (Json 200 (Message_body ''Grade updated successfully''),
       st \<lparr> submissions := map ?f (submissions st) \<rparr>)"
    unfolding grade_by_owner [OF assms(1-4)] assms(7) by (simp add: assms(5,6,8))
  with assms(9) have r: "r = Json 200 (Message_body ''Grade updated successfully'')"
    and st': "st' = st \<lparr> submissions := map ?f (submissions st) \<rparr>"
    by simp_all
  have "find (\<lambda>s. s_assignment_id s = aid \<and> s_student_id s = sid) (map ?f (submissions st)) =
      map_option ?f (find (\<lambda>s. s_assignment_id s = aid \<and> s_student_id s = sid) (submissions st))"
    by (rule find_map_preserve) simp
  then show ?thesis by (simp add: r st' assms(6))
qed

lemma owner_state1:
  "role teacher1 = ''teacher''"
  "find (\<lambda>a. a_id a = 1) (assignments state1) = Some assignment1"
  "find (\<lambda>g. g_id g = a_group_id assignment1) (groups state1) = Some group1"
  "g_teacher_id group1 = user_id teacher1"
  by (simp_all add: teacher1_def state1_simps assignment1_def group1_def)

lemma submission_state1:
  "find (\<lambda>s. s_assignment_id s = 1 \<and> s_student_id s = 2) (submissions state1) = Some submission1"
  by (simp add: state1_simps) (simp add: submission1_def)

text \<open>
  Claim C9. A grading request of the teacher who owns the group, for a student whose
  submission exists, with the number 0 as grade (the integer or the float) does not
  store 0: the request succeeds and the submission it names is left with no grade.
\<close>

theorem grade_zero_clears:
  assumes "role u = ''teacher''"
    and "find (\<lambda>a. a_id a = aid) (assignments st) = Some a"
    and "find (\<lambda>g. g_id g = a_group_id a) (groups st) = Some g"
    and "g_teacher_id g = user_id u"
    and "gr_student_id data = Some sid"
    and "find (\<lambda>s. s_assignment_id s = aid \<and> s_student_id s = sid) (submissions st) = Some sub"
    and "gr_grade data = JInt 0 \<or> gr_grade data = JFloat (Finite 0)"
    and "grade_assignment e True st u aid data = (r, st')"
  shows "r = Json 200 (Message_body ''Grade updated successfully'') \<and>
     find (\<lambda>s. s_assignment_id s = aid \<and> s_student_id s = sid) (submissions st') =
       Some (sub \<lparr> s_grade := None,
                   s_feedback := Some (case gr_feedback data of None \<Rightarrow> [] | Some t \<Rightarrow> t) \<rparr>) \<and>
     length (submissions st') = length (submissions st)"
proof (rule grade_stored [OF assms(1-6) _ _ assms(8)])
  show "validate_grade e (gr_grade data) = Inr None"
    using assms(7) by (auto simp: validate_grade_def truthy_def)
  show "grade_column e None = Some None"
    by (simp add: grade_column_def)
qed

theorem grade_zero_clears_witness:
  "grade_assignment env1 True state1 teacher1 1
     \<lparr> gr_student_id = Some 2, gr_grade = JInt 0, gr_feedback = Some ''Nothing handed in'' \<rparr> =
     (Json 200 (Message_body ''Grade updated successfully''),
      state1 \<lparr> submissions :=
        [submission1 \<lparr> s_grade := None, s_feedback := Some ''Nothing handed in'' \<rparr>] \<rparr>) \<and>
   s_grade submission1 = Some 60 \<and>
   find (\<lambda>s. s_assignment_id s = 1 \<and> s_student_id s = 2)
     (submissions (state1 \<lparr> submissions :=
        [submission1 \<lparr> s_grade := None, s_feedback := Some ''Nothing handed in'' \<rparr>] \<rparr>)) =
     Some (submission1 \<lparr> s_grade := None, s_feedback := Some ''Nothing handed in'' \<rparr>)"
proof -
  let ?data = "\<lparr> gr_student_id = Some 2, gr_grade = JInt 0,
                 gr_feedback = Some ''Nothing handed in'' \<rparr>"
  let ?st' = "state1 \<lparr> submissions :=
        [submission1 \<lparr> s_grade := None, s_feedback := Some ''Nothing handed in'' \<rparr>] \<rparr>"
  have v: "validate_grade env1 (gr_grade ?data) = Inr None"
    by (simp add: validate_grade_def truthy_def)
  have h: "grade_assignment env1 True state1 teacher1 1 ?data =
      (Json 200 (Message_body ''Grade updated successfully''), ?st')"
    unfolding grade_by_owner [OF owner_state1(1-4)] v
    by (simp add: state1_simps submission1_def grade_column_def)
  have s: "gr_student_id ?data = Some 2" by simp
  have z: "gr_grade ?data = JInt 0 \<or> gr_grade ?data = JFloat (Finite 0)" by simp
  from grade_zero_clears [OF owner_state1(1-4) s submission_state1 z h]
  show ?thesis using h by (simp add: submission1_def)
qed

text \<open>
  What holds of the validation for a request of the teacher who owns the group. A grade
  that is a non-empty string \<^verbatim>\<open>float\<close> does not read ends the request with status
  400, and so does a grade that is not falsy and that \<^verbatim>\<open>float\<close> turns into a number
  below 0 or above 100; neither changes the state. Where the submission of the named
  student exists and the commit goes through, the empty string as grade leaves that
  submission with no grade, and a grade that is not falsy and that \<^verbatim>\<open>float\<close> turns
  into a value neither below 0 nor above 100 leaves it with the decimal the column
  makes of that value.
\<close>

lemma grade_validation:
  assumes "role u = ''teacher''"
    and "find (\<lambda>a. a_id a = aid) (assignments st) = Some a"
    and "find (\<lambda>g. g_id g = a_group_id a) (groups st) = Some g"
    and "g_teacher_id g = user_id u"
  shows
   "(gr_grade data = JStr s \<and> s \<noteq> [] \<and> float_of_str e s = None \<longrightarrow>
       grade_assignment e c st u aid data =
         (Json 400 (Error_body ''Invalid grade format''), st)) \<and>
    (truthy (gr_grade data) \<and> py_float e (gr_grade data) = Inr x \<and>
       (float_less x (Finite 0) \<or> float_less (Finite 100) x) \<longrightarrow>
       grade_assignment e c st u aid data =
         (Json 400 (Error_body ''Grade must be between 0 and 100''), st)) \<and>
    (gr_student_id data = Some sid \<and>
     find (\<lambda>s. s_assignment_id s = aid \<and> s_student_id s = sid) (submissions st) = Some sub \<and>
     grade_assignment e True st u aid data = (r, st') \<longrightarrow>
       (gr_grade data = JStr [] \<longrightarrow>
          r = Json 200 (Message_body ''Grade updated successfully'') \<and>
          find (\<lambda>s. s_assignment_id s = aid \<and> s_student_id s = sid) (submissions st') =
            Some (sub \<lparr> s_grade := None,
                        s_feedback := Some (case gr_feedback data of
                                              None \<Rightarrow> [] | Some t \<Rightarrow> t) \<rparr>)) \<and>
       (truthy (gr_grade data) \<and> py_float e (gr_grade data) = Inr x \<and>
        \<not> float_less x (Finite 0) \<and> \<not> float_less (Finite 100) x \<and>
        numeric_5_2 e x = Some d \<longrightarrow>
          r = Json 200 (Message_body ''Grade updated successfully'') \<and>
          find (\<lambda>s. s_assignment_id s = aid \<and> s_student_id s = sid) (submissions st') =
            Some (sub \<lparr> s_grade := Some d,
                        s_feedback := Some (case gr_feedback data of
                                              None \<Rightarrow> [] | Some t \<Rightarrow> t) \<rparr>)))"
proof (intro conjI impI)
  assume "gr_grade data = JStr s \<and> s \<noteq> [] \<and> float_of_str e s = None"
  then have "validate_grade e (gr_grade data) = Inl (Json 400 (Error_body ''Invalid grade format''))"
    by (simp add: validate_grade_def truthy_def py_float_def)
  then show "grade_assignment e c st u aid data =
      (Json 400 (Error_body ''Invalid grade format''), st)"
    by (rule grade_rejected [OF assms])
next
  assume "truthy (gr_grade data) \<and> py_float e (gr_grade data) = Inr x \<and>
       (float_less x (Finite 0) \<or> float_less (Finite 100) x)"
  then have "validate_grade e (gr_grade data) =
      Inl (Json 400 (Error_body ''Grade must be between 0 and 100''))"
    by (auto simp: validate_grade_def truthy_def)
  then show "grade_assignment e c st u aid data =
      (Json 400 (Error_body ''Grade must be between 0 and 100''), st)"
    by (rule grade_rejected [OF assms])
next
  assume h: "gr_student_id data = Some sid \<and>
     find (\<lambda>s. s_assignment_id s = aid \<and> s_student_id s = sid) (submissions st) = Some sub \<and>
     grade_assignment e True st u aid data = (r, st')"
    and e: "gr_grade data = JStr []"
  have v: "validate_grade e (gr_grade data) = Inr None"
    by (simp add: e validate_grade_def)
  have w: "grade_column e None = Some None"
    by (simp add: grade_column_def)
  from grade_stored [OF assms _ _ v w] h
  show "r = Json 200 (Message_body ''Grade updated successfully'')"
    and "find (\<lambda>s. s_assignment_id s = aid \<and> s_student_id s = sid) (submissions st') =
            Some (sub \<lparr> s_grade := None,
                        s_feedback := Some (case gr_feedback data of
                                              None \<Rightarrow> [] | Some t \<Rightarrow> t) \<rparr>)"
    by blast+
next
  assume h: "gr_student_id data = Some sid \<and>
     find (\<lambda>s. s_assignment_id s = aid \<and> s_student_id s = sid) (submissions st) = Some sub \<and>
     grade_assignment e True st u aid data = (r, st')"
    and n: "truthy (gr_grade data) \<and> py_float e (gr_grade data) = Inr x \<and>
        \<not> float_less x (Finite 0) \<and> \<not> float_less (Finite 100) x \<and>
        numeric_5_2 e x = Some d"
  have v: "validate_grade e (gr_grade data) = Inr (Some x)"
    using n by (auto simp: validate_grade_def truthy_def)
  have w: "grade_column e (Some x) = Some (Some d)"
    using n by (simp add: grade_column_def)
  from grade_stored [OF assms _ _ v w] h
  show "r = Json 200 (Message_body ''Grade updated successfully'')"
    and "find (\<lambda>s. s_assignment_id s = aid \<and> s_student_id s = sid) (submissions st') =
            Some (sub \<lparr> s_grade := Some d,
                        s_feedback := Some (case gr_feedback data of
                                              None \<Rightarrow> [] | Some t \<Rightarrow> t) \<rparr>)"
    by blast+
qed

text \<open>
  In the example the owning teacher's grades 150 and 87.5 and the empty string go the
  way the lemma says; 87.5 is a decimal with two places and is stored as it is.
\<close>

lemma grade_validation_examples:
  "grade_assignment env1 True state1 teacher1 1
     \<lparr> gr_student_id = Some 2, gr_grade = JInt 150, gr_feedback = None \<rparr> =
     (Json 400 (Error_body ''Grade must be between 0 and 100''), state1) \<and>
   grade_assignment env1 True state1 teacher1 1
     \<lparr> gr_student_id = Some 2, gr_grade = JStr [], gr_feedback = Some ''Regrade'' \<rparr> =
     (Json 200 (Message_body ''Grade updated successfully''),
      state1 \<lparr> submissions :=
        [submission1 \<lparr> s_grade := None, s_feedback := Some ''Regrade'' \<rparr>] \<rparr>) \<and>
   grade_assignment env1 True state1 teacher1 1
     \<lparr> gr_student_id = Some 2, gr_grade = JFloat (Finite (175 / 2)),
       gr_feedback = Some ''Good'' \<rparr> =
     (Json 200 (Message_body ''Grade updated successfully''),
      state1 \<lparr> submissions :=
        [submission1 \<lparr> s_grade := Some (175 / 2), s_feedback := Some ''Good'' \<rparr>] \<rparr>)"
proof -
  have two: "two_places (Finite (175 / 2)) = Some (175 / 2)"
    by (simp add: two_places_def Let_def)
  have 1: "grade_assignment env1 True state1 teacher1 1
     \<lparr> gr_student_id = Some 2, gr_grade = JInt 150, gr_feedback = None \<rparr> =
     (Json 400 (Error_body ''Grade must be between 0 and 100''), state1)"
    unfolding grade_by_owner [OF owner_state1]
    by (simp add: validate_grade_def truthy_def py_float_def)
  have 2: "grade_assignment env1 True state1 teacher1 1
     \<lparr> gr_student_id = Some 2, gr_grade = JStr [], gr_feedback = Some ''Regrade'' \<rparr> =
     (Json 200 (Message_body ''Grade updated successfully''),
      state1 \<lparr> submissions :=
        [submission1 \<lparr> s_grade := None, s_feedback := Some ''Regrade'' \<rparr>] \<rparr>)"
    unfolding grade_by_owner [OF owner_state1]
    by (simp add: validate_grade_def truthy_def state1_simps submission1_def grade_column_def)
  have 3: "grade_assignment env1 True state1 teacher1 1
     \<lparr> gr_student_id = Some 2, gr_grade = JFloat (Finite (175 / 2)),
       gr_feedback = Some ''Good'' \<rparr> =
     (Json 200 (Message_body ''Grade updated successfully''),
      state1 \<lparr> submissions :=
        [submission1 \<lparr> s_grade := Some (175 / 2), s_feedback := Some ''Good'' \<rparr>] \<rparr>)"
    unfolding grade_by_owner [OF owner_state1]
    by (simp add: validate_grade_def truthy_def py_float_def state1_simps submission1_def
        grade_column_def env1_def two)
  show ?thesis using 1 2 3 by simp
qed

text \<open>
  Claim C2, on the code. The claim has every grade that is no number fail with status
  400, and the handler sets out to do so: it catches the \<^verbatim>\<open>ValueError\<close> that
  \<^verbatim>\<open>float\<close> raises on a string such as \<open>abc\<close> and answers 400. A grade that is a
  list is no number either, but \<^verbatim>\<open>float\<close> raises \<^verbatim>\<open>TypeError\<close> on it, which the
  handler does not catch: the request of the owning teacher ends in an unhandled
  exception, not in status 400. An integer too large for a float, a number outside
  the range, ends in an unhandled \<^verbatim>\<open>OverflowError\<close> the same way.
\<close>

theorem grade_list_unhandled:
  "grade_assignment env1 True state1 teacher1 1
     \<lparr> gr_student_id = Some 2, gr_grade = JStr ''abc'', gr_feedback = None \<rparr> =
     (Json 400 (Error_body ''Invalid grade format''), state1) \<and>
   grade_assignment env1 True state1 teacher1 1
     \<lparr> gr_student_id = Some 2, gr_grade = JArray [JInt 1], gr_feedback = None \<rparr> =
     (Unhandled TypeError, state1) \<and>
   grade_assignment env1 True state1 teacher1 1
     \<lparr> gr_student_id = Some 2, gr_grade = JInt (2 ^ 1024), gr_feedback = None \<rparr> =
     (Unhandled OverflowError, state1)"
proof -
  have abc: "plain_decimal ''abc'' = None"
    by (simp add: plain_decimal_def)
  have 1: "grade_assignment env1 True state1 teacher1 1
     \<lparr> gr_student_id = Some 2, gr_grade = JStr ''abc'', gr_feedback = None \<rparr> =
     (Json 400 (Error_body ''Invalid grade format''), state1)"
    unfolding grade_by_owner [OF owner_state1]
    by (simp add: validate_grade_def truthy_def py_float_def env1_def abc)
  have 2: "grade_assignment env1 True state1 teacher1 1
     \<lparr> gr_student_id = Some 2, gr_grade = JArray [JInt 1], gr_feedback = None \<rparr> =
     (Unhandled TypeError, state1)"
    unfolding grade_by_owner [OF owner_state1]
    by (simp add: validate_grade_def truthy_def py_float_def)
  have 3: "grade_assignment env1 True state1 teacher1 1
     \<lparr> gr_student_id = Some 2, gr_grade = JInt (2 ^ 1024), gr_feedback = None \<rparr> =
     (Unhandled OverflowError, state1)"
    unfolding grade_by_owner [OF owner_state1]
    by (simp add: validate_grade_def truthy_def py_float_def)
  show ?thesis using 1 2 3 by simp
qed

section \<open>Properties of the upload helper\<close>

lemma stamp_env1: "strftime_stamp (2024, 6, 3, 10, 0, 0, 0) = ''20240603_100000''"
  by code_simp

lemma allowed_file_cv: "allowed_file ''cv.pdf''"
  by (simp add: allowed_file_def after_last_dot_def lower_def lower_char_def
      ALLOWED_EXTENSIONS_def)

text \<open>
  The helper refuses a file exactly when its name is empty or \<^verbatim>\<open>allowed_file\<close> refuses
  the name, it stores nothing then, and the category has no part in the decision.
\<close>

lemma save_file_rejects_iff:
  "fst (save_file e st file subfolder) = None \<longleftrightarrow>
     filename file = [] \<or> \<not> allowed_file (filename file)"
  by (simp add: save_file_def Let_def)

lemma save_file_rejected_state:
  "fst (save_file e st file subfolder) = None \<Longrightarrow> snd (save_file e st file subfolder) = st"
  by (auto simp: save_file_def Let_def)

lemma save_file_any_category:
  "(fst (save_file e st file subfolder) = None) = (fst (save_file e st file subfolder') = None)"
  by (simp add: save_file_rejects_iff)

text \<open>
  Claim C3, on the code: the helper takes a PDF for the category \<open>profiles\<close>, stores it
  there and returns its path, where the claim has the category permit images only. The
  registration, which checks a profile picture on its own, refuses the same file.
\<close>

theorem save_file_profiles_pdf:
  "fst (save_file env1 state1 cv_pdf ''profiles'') =
     Some ''uploads/profiles/20240603_100000_cv.pdf'' \<and>
   files (snd (save_file env1 state1 cv_pdf ''profiles''))
     ''/srv/journal/static/uploads/profiles/20240603_100000_cv.pdf'' = Some ''%PDF-1.7'' \<and>
   register_picture env1 True state1 (Some cv_pdf) =
     (None, [(''Please upload an image file (PNG, JPG, GIF)'', ''warning'')], state1)"
proof -
  have 1: "fst (save_file env1 state1 cv_pdf ''profiles'') =
     Some ''uploads/profiles/20240603_100000_cv.pdf''"
    using allowed_file_cv
    by (simp add: save_file_def cv_pdf_def env1_def Let_def stamp_env1)
  have 2: "files (snd (save_file env1 state1 cv_pdf ''profiles''))
     ''/srv/journal/static/uploads/profiles/20240603_100000_cv.pdf'' = Some ''%PDF-1.7''"
    using allowed_file_cv
    by (simp add: save_file_def cv_pdf_def env1_def Let_def stamp_env1 UPLOAD_FOLDER_def
        path_join_def)
  have 3: "register_picture env1 True state1 (Some cv_pdf) =
     (None, [(''Please upload an image file (PNG, JPG, GIF)'', ''warning'')], state1)"
    by (simp add: register_picture_def cv_pdf_def endswith_def lower_def lower_char_def)
  show ?thesis using 1 2 3 by simp
qed

section \<open>Properties of the dashboard\<close>

text \<open>
  Claim C8. For a student the dashboard hands the template the assignments of the
  student's groups that fall due after now, and the pending-assignments view of the
  template, as the spec describes it, holds exactly those among the assignments of the
  database that belong to a group of the student, fall due after now and have no
  submission by the student; the state stays as it was.
\<close>

theorem pending_assignments:
  assumes "role u = ''student''"
    and "dashboard e st u = (Render (Student_dashboard gs given submitted t) fl, st')"
  shows "given = filter (\<lambda>a. (\<exists>m \<in> set (group_members st).
                                 gm_student_id m = user_id u \<and> gm_group_id m = a_group_id a)
                              \<and> now e < a_due_date a) (assignments st) \<and>
         pending_assignments_view given submitted =
           filter (\<lambda>a. (\<exists>m \<in> set (group_members st).
                           gm_student_id m = user_id u \<and> gm_group_id m = a_group_id a)
                        \<and> now e < a_due_date a
                        \<and> \<not> (\<exists>s \<in> set (submissions st).
                                s_student_id s = user_id u \<and> s_assignment_id s = a_id a))
             (assignments st) \<and>
         st' = st"
proof -
  define ids where
    "ids = map gm_group_id (filter (\<lambda>m. gm_student_id m = user_id u) (group_members st))"
  define found where
    "found = filter (\<lambda>a. a_group_id a \<in> set ids \<and> a_due_date a > now e) (assignments st)"
  define handed where
    "handed = map s_assignment_id
       (filter (\<lambda>s. s_student_id s = user_id u \<and> s_assignment_id s \<in> set (map a_id found))
          (submissions st))"
  have mem: "a_group_id a \<in> set ids \<longleftrightarrow>
      (\<exists>m \<in> set (group_members st). gm_student_id m = user_id u \<and> gm_group_id m = a_group_id a)"
    for a :: assignment
    by (force simp: ids_def)
  have "dashboard e st u =
      (Render (Student_dashboard
         (if ids \<noteq> [] then filter (\<lambda>g. g_id g \<in> set ids) (groups st) else [])
         found handed (now e)) [], st)"
    using assms(1) by (simp add: dashboard_def Let_def ids_def found_def handed_def)
  with assms(2) have given: "given = found" and submitted: "submitted = handed"
    and st': "st' = st"
    by simp_all
  have 1: "found = filter (\<lambda>a. (\<exists>m \<in> set (group_members st).
                                 gm_student_id m = user_id u \<and> gm_group_id m = a_group_id a)
                              \<and> now e < a_due_date a) (assignments st)"
    unfolding found_def by (rule filter_cong) (simp_all add: mem)
  have sub: "a_id a \<notin> set handed \<longleftrightarrow>
      \<not> (\<exists>s \<in> set (submissions st). s_student_id s = user_id u \<and> s_assignment_id s = a_id a)"
    if "a \<in> set found" for a :: assignment
    using that by (force simp: handed_def)
  have "filter (\<lambda>a. a_id a \<notin> set handed) found =
      filter (\<lambda>a. \<not> (\<exists>s \<in> set (submissions st).
                        s_student_id s = user_id u \<and> s_assignment_id s = a_id a)) found"
    by (rule filter_cong) (simp_all add: sub)
  then have 2: "pending_assignments_view found handed =
      filter (\<lambda>a. (\<exists>m \<in> set (group_members st).
                           gm_student_id m = user_id u \<and> gm_group_id m = a_group_id a)
                        \<and> now e < a_due_date a
                        \<and> \<not> (\<exists>s \<in> set (submissions st).
                                s_student_id s = user_id u \<and> s_assignment_id s = a_id a))
             (assignments st)"
    unfolding pending_assignments_view_def 1 by (simp add: conj_commute conj_left_commute)
  show ?thesis using 1 2 by (simp add: given submitted st')
qed

lemma state2_simps:
  "users state2 = [teacher1, student2, student3]"
  "groups state2 = [group1]"
  "group_members state2 = [member1]"
  "assignments state2 = [assignment1, assignment2]"
  "submissions state2 = [submission1]"
  by (simp_all add: state2_def state1_def)

theorem pending_assignments_witness:
  "role student2 = ''student'' \<and>
   dashboard env2 state2 student2 =
     (Render (Student_dashboard [group1] [assignment1, assignment2] [1] (now env2)) [], state2) \<and>
   pending_assignments_view [assignment1, assignment2] [1] = [assignment2] \<and>
   filter (\<lambda>a. (\<exists>m \<in> set (group_members state2).
                   gm_student_id m = user_id student2 \<and> gm_group_id m = a_group_id a)
                \<and> now env2 < a_due_date a
                \<and> \<not> (\<exists>s \<in> set (submissions state2).
                        s_student_id s = user_id student2 \<and> s_assignment_id s = a_id a))
     (assignments state2) = [assignment2]"
proof -
  have r: "role student2 = ''student''" by (simp add: student2_def)
  have h: "dashboard env2 state2 student2 =
     (Render (Student_dashboard [group1] [assignment1, assignment2] [1] (now env2)) [], state2)"
    by (simp add: dashboard_def Let_def student2_def state2_simps member1_def group1_def
        assignment1_def assignment2_def submission1_def env2_def env1_def)
  have v: "pending_assignments_view [assignment1, assignment2] [1] = [assignment2]"
    by (simp add: pending_assignments_view_def assignment1_def assignment2_def)
  note t = pending_assignments [OF r h]
  have f: "filter (\<lambda>a. (\<exists>m \<in> set (group_members state2).
                   gm_student_id m = user_id student2 \<and> gm_group_id m = a_group_id a)
                \<and> now env2 < a_due_date a
                \<and> \<not> (\<exists>s \<in> set (submissions state2).
                        s_student_id s = user_id student2 \<and> s_assignment_id s = a_id a))
     (assignments state2) = [assignment2]"
    unfolding t [THEN conjunct2, THEN conjunct1, symmetric] by (rule v)
  show ?thesis by (intro conjI r h v f)
qed

section \<open>Properties of the registration\<close>

text \<open>
  Claim C10. A registration that stores an account appends one row whose role is the
  role the form names, \<open>student\<close> when the form names none. The handler asks nothing
  of the visitor and nothing of the role: whenever the passwords agree and the username
  and the email are free, a visitor who is not logged in gets the account stored with
  any role the column admits, \<open>teacher\<close> and \<open>admin\<close> among them.
\<close>

theorem register_role_unrestricted:
  "(register e saved st None POST form = (Redirect Login fl, st') \<longrightarrow>
      users st' = users st @ [last (users st')] \<and>
      username (last (users st')) = rf_username form \<and>
      role (last (users st')) = (case rf_role form of None \<Rightarrow> ''student'' | Some r \<Rightarrow> r)) \<and>
   (rf_password form = rf_confirm_password form \<and>
    rf_username form \<notin> username ` set (users st) \<and>
    rf_email form \<notin> email ` set (users st) \<and>
    (case rf_role form of None \<Rightarrow> ''student'' | Some r \<Rightarrow> r) \<in> role_values \<longrightarrow>
      (\<exists>fl' st''. register e saved st None POST form = (Redirect Login fl', st'') \<and>
         role (last (users st'')) = (case rf_role form of None \<Rightarrow> ''student'' | Some r \<Rightarrow> r)))"
proof (intro conjI impI)
  assume h: "register e saved st None POST form = (Redirect Login fl, st')"
  obtain picture flashed st1 where p:
    "register_picture e saved st (rf_profile_picture form) = (picture, flashed, st1)"
    by (cases "register_picture e saved st (rf_profile_picture form)") auto
  have u1: "users st1 = users st"
    using p by (auto simp: register_picture_def Let_def split: option.splits if_splits)
  from h p have "users st' = users st1 @ [last (users st')] \<and>
      username (last (users st')) = rf_username form \<and>
      role (last (users st')) = (case rf_role form of None \<Rightarrow> ''student'' | Some r \<Rightarrow> r)"
    by (auto simp: register_def Let_def split: if_splits)
  then show "users st' = users st @ [last (users st')]"
    and "username (last (users st')) = rf_username form"
    and "role (last (users st')) = (case rf_role form of None \<Rightarrow> ''student'' | Some r \<Rightarrow> r)"
    by (simp_all add: u1)
next
  assume a: "rf_password form = rf_confirm_password form \<and>
    rf_username form \<notin> username ` set (users st) \<and>
    rf_email form \<notin> email ` set (users st) \<and>
    (case rf_role form of None \<Rightarrow> ''student'' | Some r \<Rightarrow> r) \<in> role_values"
  obtain picture flashed st1 where p:
    "register_picture e saved st (rf_profile_picture form) = (picture, flashed, st1)"
    by (cases "register_picture e saved st (rf_profile_picture form)") auto
  have n1: "find (\<lambda>u. username u = rf_username form) (users st) = None"
    using a by (force simp: find_None_iff image_iff)
  have n2: "find (\<lambda>u. email u = rf_email form) (users st) = None"
    using a by (force simp: find_None_iff image_iff)
  show "\<exists>fl' st''. register e saved st None POST form = (Redirect Login fl', st'') \<and>
         role (last (users st'')) = (case rf_role form of None \<Rightarrow> ''student'' | Some r \<Rightarrow> r)"
    using a p n1 n2 by (simp add: register_def Let_def)
qed

theorem register_role_unrestricted_witness:
  "register env1 True state1 None POST admin_form =
     (Redirect Login [(''Registration successful. Please login.'', ''success'')],
      state1 \<lparr> users := [teacher1, student2, student3, admin_account] \<rparr>) \<and>
   rf_role admin_form = Some ''admin'' \<and>
   role (last (users (state1 \<lparr> users := [teacher1, student2, student3, admin_account] \<rparr>))) =
     ''admin''"
proof -
  have h: "register env1 True state1 None POST admin_form =
     (Redirect Login [(''Registration successful. Please login.'', ''success'')],
      state1 \<lparr> users := [teacher1, student2, student3, admin_account] \<rparr>)"
    by (simp add: register_def register_picture_def admin_form_def admin_account_def
        state1_simps teacher1_def student2_def student3_def env1_def role_values_def
        next_id_def Let_def)
  from register_role_unrestricted [of env1 True state1 admin_form
      "[(''Registration successful. Please login.'', ''success'')]"
      "state1 \<lparr> users := [teacher1, student2, student3, admin_account] \<rparr>"] h
  have "role (last (users (state1 \<lparr> users := [teacher1, student2, student3, admin_account] \<rparr>))) =
      (case rf_role admin_form of None \<Rightarrow> ''student'' | Some r \<Rightarrow> r)"
    by blast
  then show ?thesis using h by (simp add: admin_form_def)
qed

end
